theory Spec2Isabelle
  imports Main "HOL-Library.AList" "HOL-Library.Log_Nat"
begin

section \<open>Common conventions\<close>

text \<open>
  The three managers of the rules-support layer (turn/phase, life, tokens) are embedded
  as functions on explicit state.  The turn counter, which the turn manager itself sets
  to 1 and increments, is an \<open>int\<close>; the numbers that callers pass to the life and token
  managers are JavaScript numbers (section "JavaScript numbers").
  Every \<open>throw new Error(msg)\<close> is the value \<open>Inl (Error msg)\<close>; a method that can throw
  returns its outcome together with the state it leaves behind, so that "the state is
  unchanged after a failure" is a statement about the model.

  A listener set (\<open>Set<callback>\<close>) is the list of the registered callbacks in
  registration order, a callback being known by its identity only.  Delivering an event
  produces one notification per registered callback, in that order; a callback that
  throws has still been invoked (the \<open>try/catch\<close> in the notify loops swallows the
  failure).  Callbacks are observers: a callback that calls back into the manager is
  outside the model.
\<close>

datatype error = Error string

type_synonym callback = nat


definition Set_delete :: "'a \<Rightarrow> 'a list \<Rightarrow> 'a list" where
  "Set_delete x xs = removeAll x xs"

text \<open>\<open>Map<K, V>\<close> with primitive keys: an association list in insertion order.
  \<open>Map.set\<close> is \<^const>\<open>AList.update\<close> (an existing key keeps its position, a new key goes
  last) and \<open>Map.delete\<close> is \<^const>\<open>AList.delete\<close>.\<close>

definition Map_has :: "('k \<times> 'v) list \<Rightarrow> 'k \<Rightarrow> bool" where
  "Map_has al k = (map_of al k \<noteq> None)"

definition Map_keys :: "('k \<times> 'v) list \<Rightarrow> 'k list" where
  "Map_keys al = map fst al"

definition Map_values :: "('k \<times> 'v) list \<Rightarrow> 'v list" where
  "Map_values al = map snd al"

section \<open>JavaScript numbers\<close>

text \<open>
  Life totals, amounts, token counts and the numeric configuration values come from the
  callers and are JavaScript numbers: IEEE-754 doubles.  A finite double is the rational
  it denotes; \<open>-0\<close> is identified with \<open>0\<close> (they are \<open>===\<close>, and no operation of the
  managers tells them apart).  Every arithmetic result is rounded to the nearest double,
  ties to the even mantissa, overflowing to an infinity.
\<close>

datatype number = Finite rat | NaN | PosInf | NegInf

definition num_of_int :: "int \<Rightarrow> number" where
  "num_of_int z = Finite (of_int z)"

definition pow2 :: "int \<Rightarrow> rat" where
  "pow2 e = (if 0 \<le> e then 2 ^ nat e else 1 / 2 ^ nat (- e))"

text \<open>The exponent of the leading binary digit of a positive rational.\<close>

definition floor_log2 :: "rat \<Rightarrow> int" where
  "floor_log2 a =
     (case quotient_of a of (n, d) \<Rightarrow>
        (let k = bitlen n - bitlen d in if pow2 k \<le> a then k else k - 1))"

definition round_half_even :: "rat \<Rightarrow> int" where
  "round_half_even x =
     (let f = \<lfloor>x\<rfloor>; r = x - of_int f
      in if r < 1 / 2 then f else if 1 / 2 < r then f + 1 else if even f then f else f + 1)"

text \<open>Every integer of magnitude at most \<open>2^53\<close> is a double.\<close>

definition exact_integer :: "rat \<Rightarrow> bool" where
  "exact_integer q = (of_int \<lfloor>q\<rfloor> = q \<and> \<bar>q\<bar> \<le> 2 ^ 53)"

text \<open>Rounding to double precision: 53 bits of mantissa, the exponent of the last
  mantissa bit at least \<open>-1074\<close> (subnormal numbers), infinity from \<open>2^1024\<close> on.\<close>

definition round_double :: "rat \<Rightarrow> number" where
  "round_double q =
     (if exact_integer q then Finite q
      else
        (let a = \<bar>q\<bar>;
             e = max (floor_log2 a - 52) (- 1074);
             m = round_half_even (a / pow2 e);
             r = of_int m * pow2 e
         in if pow2 1024 \<le> r then (if 0 < q then PosInf else NegInf)
            else Finite (if 0 < q then r else - r)))"

fun js_neg :: "number \<Rightarrow> number" where
  "js_neg (Finite a) = Finite (- a)"
| "js_neg NaN = NaN"
| "js_neg PosInf = NegInf"
| "js_neg NegInf = PosInf"

fun js_add :: "number \<Rightarrow> number \<Rightarrow> number" where
  "js_add NaN y = NaN"
| "js_add x NaN = NaN"
| "js_add (Finite a) (Finite b) = round_double (a + b)"
| "js_add PosInf NegInf = NaN"
| "js_add NegInf PosInf = NaN"
| "js_add PosInf y = PosInf"
| "js_add x PosInf = PosInf"
| "js_add NegInf y = NegInf"
| "js_add x NegInf = NegInf"

definition js_sub :: "number \<Rightarrow> number \<Rightarrow> number" where
  "js_sub x y = js_add x (js_neg y)"

text \<open>\<open>x < y\<close>: false as soon as one side is \<open>NaN\<close>.\<close>

fun js_lt :: "number \<Rightarrow> number \<Rightarrow> bool" where
  "js_lt NaN y = False"
| "js_lt x NaN = False"
| "js_lt (Finite a) (Finite b) = (a < b)"
| "js_lt x NegInf = False"
| "js_lt NegInf y = True"
| "js_lt PosInf y = False"
| "js_lt x PosInf = True"

definition js_gt :: "number \<Rightarrow> number \<Rightarrow> bool" where
  "js_gt x y = js_lt y x"

text \<open>\<open>x <= y\<close>\<close>

definition js_le :: "number \<Rightarrow> number \<Rightarrow> bool" where
  "js_le x y = (js_lt x y \<or> (x \<noteq> NaN \<and> x = y))"

text \<open>\<open>x === y\<close> on numbers: \<open>NaN\<close> is not equal to itself.\<close>

definition js_strict_eq :: "number \<Rightarrow> number \<Rightarrow> bool" where
  "js_strict_eq x y = (x \<noteq> NaN \<and> x = y)"

text \<open>\<open>Math.max\<close> and \<open>Math.min\<close> of two arguments: \<open>NaN\<close> when an argument is \<open>NaN\<close>.\<close>

definition Math_max :: "number \<Rightarrow> number \<Rightarrow> number" where
  "Math_max x y = (if x = NaN \<or> y = NaN then NaN else if js_lt x y then y else x)"

definition Math_min :: "number \<Rightarrow> number \<Rightarrow> number" where
  "Math_min x y = (if x = NaN \<or> y = NaN then NaN else if js_lt y x then y else x)"

definition is_finite :: "number \<Rightarrow> bool" where
  "is_finite x = (case x of Finite a \<Rightarrow> True | _ \<Rightarrow> False)"

section \<open>Turn phases (types/game.ts)\<close>

datatype TurnPhase = PStart | PUntap | PDraw | PResource | PMain | PClash | PMain2 | PEnd

definition TURN_PHASES :: "TurnPhase list" where
  "TURN_PHASES = [PStart, PUntap, PDraw, PResource, PMain, PClash, PMain2, PEnd]"

fun phaseString :: "TurnPhase \<Rightarrow> string" where
  "phaseString PStart = ''start''"
| "phaseString PUntap = ''untap''"
| "phaseString PDraw = ''draw''"
| "phaseString PResource = ''resource''"
| "phaseString PMain = ''main''"
| "phaseString PClash = ''clash''"
| "phaseString PMain2 = ''main2''"
| "phaseString PEnd = ''end''"

text \<open>\<open>Array.prototype.indexOf\<close>: the first index of the element, or \<open>-1\<close>.\<close>

fun indexOf :: "'a list \<Rightarrow> 'a \<Rightarrow> int" where
  "indexOf [] x = -1"
| "indexOf (y # ys) x =
     (if y = x then 0 else (let i = indexOf ys x in if i = -1 then -1 else i + 1))"

text \<open>An array read \<open>xs[i]\<close>: \<open>undefined\<close> (here \<open>None\<close>) out of range.\<close>

definition Array_get :: "'a list \<Rightarrow> int \<Rightarrow> 'a option" where
  "Array_get xs i = (if 0 \<le> i \<and> i < int (length xs) then Some (xs ! nat i) else None)"

definition getNextPhase :: "TurnPhase \<Rightarrow> TurnPhase" where
  "getNextPhase currentPhase =
     (let index = indexOf TURN_PHASES currentPhase in
      if index = -1 \<or> index = int (length TURN_PHASES) - 1 then PStart
      else (case Array_get TURN_PHASES (index + 1) of
              None \<Rightarrow> PStart
            | Some nextPhase \<Rightarrow> nextPhase))"

section \<open>Turn manager (managers/TurnManager.ts)\<close>

record PhaseActions =
  canDraw :: bool
  canPlayResource :: bool
  canPlayCards :: bool
  canAttack :: bool
  canActivateAbilities :: bool

record TurnState =
  turnNumber :: int
  phase :: TurnPhase
  activePlayerId :: string
  phaseActionsRemaining :: PhaseActions

record TurnChangeEvent =
  previousTurn :: int
  newTurn :: int
  ev_activePlayerId :: string

record PhaseChangeEvent =
  previousPhase :: TurnPhase
  newPhase :: TurnPhase
  ev_turnNumber :: int

record TurnManagerConfig =
  skipFirstDraw :: bool
  resourcesPerTurn :: int
  drawsPerTurn :: int

definition DEFAULT_TURN_CONFIG :: TurnManagerConfig where
  "DEFAULT_TURN_CONFIG = \<lparr>skipFirstDraw = True, resourcesPerTurn = 1, drawsPerTurn = 1\<rparr>"

definition mkActions :: "bool \<Rightarrow> bool \<Rightarrow> bool \<Rightarrow> bool \<Rightarrow> bool \<Rightarrow> PhaseActions" where
  "mkActions d r c a b =
     \<lparr>canDraw = d, canPlayResource = r, canPlayCards = c, canAttack = a,
      canActivateAbilities = b\<rparr>"

fun DEFAULT_PHASE_ACTIONS :: "TurnPhase \<Rightarrow> PhaseActions" where
  "DEFAULT_PHASE_ACTIONS PStart    = mkActions False False False False False"
| "DEFAULT_PHASE_ACTIONS PUntap    = mkActions False False False False False"
| "DEFAULT_PHASE_ACTIONS PDraw     = mkActions True  False False False False"
| "DEFAULT_PHASE_ACTIONS PResource = mkActions False True  False False False"
| "DEFAULT_PHASE_ACTIONS PMain     = mkActions False False True  False True"
| "DEFAULT_PHASE_ACTIONS PClash    = mkActions False False False True  True"
| "DEFAULT_PHASE_ACTIONS PMain2    = mkActions False False True  False True"
| "DEFAULT_PHASE_ACTIONS PEnd      = mkActions False False False False False"

record TurnManager =
  state :: TurnState
  playerIds :: "string \<times> string"
  turn_config :: TurnManagerConfig
  turnListeners :: "callback list"
  phaseListeners :: "callback list"

text \<open>What the listeners of a turn manager have been called with.\<close>

datatype turn_notification =
    TurnNotified callback TurnChangeEvent
  | PhaseNotified callback PhaseChangeEvent

text \<open>The constructor; \<open>cfg\<close> is the configuration after the defaults have been merged in.\<close>

definition new_TurnManager :: "string \<Rightarrow> string \<Rightarrow> TurnManagerConfig \<Rightarrow> TurnManager" where
  "new_TurnManager player1Id player2Id cfg =
     \<lparr>state = \<lparr>turnNumber = 1, phase = PStart, activePlayerId = player1Id,
               phaseActionsRemaining = DEFAULT_PHASE_ACTIONS PStart\<rparr>,
      playerIds = (player1Id, player2Id),
      turn_config = cfg,
      turnListeners = [],
      phaseListeners = []\<rparr>"

definition getTurnNumber :: "TurnManager \<Rightarrow> int" where
  "getTurnNumber m = turnNumber (state m)"

definition getCurrentPhase :: "TurnManager \<Rightarrow> TurnPhase" where
  "getCurrentPhase m = phase (state m)"

definition getActivePlayerId :: "TurnManager \<Rightarrow> string" where
  "getActivePlayerId m = activePlayerId (state m)"

definition getInactivePlayerId :: "TurnManager \<Rightarrow> string" where
  "getInactivePlayerId m =
     (if fst (playerIds m) = activePlayerId (state m) then snd (playerIds m)
      else fst (playerIds m))"

definition isPlayerTurn :: "TurnManager \<Rightarrow> string \<Rightarrow> bool" where
  "isPlayerTurn m playerId = (activePlayerId (state m) = playerId)"

definition getPhaseActions :: "TurnManager \<Rightarrow> PhaseActions" where
  "getPhaseActions m = phaseActionsRemaining (state m)"

datatype ActionName = CanDraw | CanPlayResource | CanPlayCards | CanAttack | CanActivateAbilities

fun actionString :: "ActionName \<Rightarrow> string" where
  "actionString CanDraw = ''canDraw''"
| "actionString CanPlayResource = ''canPlayResource''"
| "actionString CanPlayCards = ''canPlayCards''"
| "actionString CanAttack = ''canAttack''"
| "actionString CanActivateAbilities = ''canActivateAbilities''"

fun getAction :: "PhaseActions \<Rightarrow> ActionName \<Rightarrow> bool" where
  "getAction a CanDraw = canDraw a"
| "getAction a CanPlayResource = canPlayResource a"
| "getAction a CanPlayCards = canPlayCards a"
| "getAction a CanAttack = canAttack a"
| "getAction a CanActivateAbilities = canActivateAbilities a"

fun clearAction :: "PhaseActions \<Rightarrow> ActionName \<Rightarrow> PhaseActions" where
  "clearAction a CanDraw = a\<lparr>canDraw := False\<rparr>"
| "clearAction a CanPlayResource = a\<lparr>canPlayResource := False\<rparr>"
| "clearAction a CanPlayCards = a\<lparr>canPlayCards := False\<rparr>"
| "clearAction a CanAttack = a\<lparr>canAttack := False\<rparr>"
| "clearAction a CanActivateAbilities = a\<lparr>canActivateAbilities := False\<rparr>"

definition canPerformAction :: "TurnManager \<Rightarrow> ActionName \<Rightarrow> bool" where
  "canPerformAction m action = getAction (phaseActionsRemaining (state m)) action"

definition notifyTurnListeners :: "TurnManager \<Rightarrow> TurnChangeEvent \<Rightarrow> turn_notification list" where
  "notifyTurnListeners m event = map (\<lambda>cb. TurnNotified cb event) (turnListeners m)"

definition notifyPhaseListeners :: "TurnManager \<Rightarrow> PhaseChangeEvent \<Rightarrow> turn_notification list" where
  "notifyPhaseListeners m event = map (\<lambda>cb. PhaseNotified cb event) (phaseListeners m)"

definition endTurn :: "TurnManager \<Rightarrow> TurnChangeEvent \<times> TurnManager \<times> turn_notification list" where
  "endTurn m =
     (let previousTurn = turnNumber (state m);
          s1 = (state m)\<lparr>activePlayerId :=
                  (if activePlayerId (state m) = fst (playerIds m) then snd (playerIds m)
                   else fst (playerIds m))\<rparr>;
          s2 = s1\<lparr>turnNumber := turnNumber s1 + 1\<rparr>;
          s3 = s2\<lparr>phase := PStart, phaseActionsRemaining := DEFAULT_PHASE_ACTIONS PStart\<rparr>;
          m' = m\<lparr>state := s3\<rparr>;
          event = \<lparr>previousTurn = previousTurn, newTurn = turnNumber s3,
                   ev_activePlayerId = activePlayerId s3\<rparr>
      in (event, m', notifyTurnListeners m' event))"

definition nextPhase :: "TurnManager \<Rightarrow> PhaseChangeEvent \<times> TurnManager \<times> turn_notification list" where
  "nextPhase m =
     (let previousPhase = phase (state m);
          newPhase = getNextPhase previousPhase
      in if previousPhase = PEnd \<and> newPhase = PStart then
           (case endTurn m of (_, m', notes) \<Rightarrow>
              (\<lparr>previousPhase = previousPhase, newPhase = phase (state m'),
                ev_turnNumber = turnNumber (state m')\<rparr>, m', notes))
         else
           (let s1 = (state m)\<lparr>phase := newPhase,
                                phaseActionsRemaining := DEFAULT_PHASE_ACTIONS newPhase\<rparr>;
                s2 = (if newPhase = PDraw \<and> turnNumber s1 = 1 \<and> skipFirstDraw (turn_config m)
                      then s1\<lparr>phaseActionsRemaining :=
                                (phaseActionsRemaining s1)\<lparr>canDraw := False\<rparr>\<rparr>
                      else s1);
                m' = m\<lparr>state := s2\<rparr>;
                event = \<lparr>previousPhase = previousPhase, newPhase = newPhase,
                         ev_turnNumber = turnNumber s2\<rparr>
            in (event, m', notifyPhaseListeners m' event)))"

definition setPhase :: "TurnManager \<Rightarrow> TurnPhase \<Rightarrow> (error + unit) \<times> TurnManager \<times> turn_notification list" where
  "setPhase m ph =
     (if ph \<notin> set TURN_PHASES then (Inl (Error (''Invalid phase: '' @ phaseString ph)), m, [])
      else
        (let previousPhase = phase (state m);
             s1 = (state m)\<lparr>phase := ph, phaseActionsRemaining := DEFAULT_PHASE_ACTIONS ph\<rparr>;
             m' = m\<lparr>state := s1\<rparr>;
             event = \<lparr>previousPhase = previousPhase, newPhase = ph,
                      ev_turnNumber = turnNumber s1\<rparr>
         in (Inr (), m', notifyPhaseListeners m' event)))"

definition useAction :: "TurnManager \<Rightarrow> ActionName \<Rightarrow> (error + unit) \<times> TurnManager" where
  "useAction m action =
     (if \<not> getAction (phaseActionsRemaining (state m)) action then
        (Inl (Error (''Action '' @ actionString action @ '' is not available in phase ''
                      @ phaseString (phase (state m)))), m)
      else
        (Inr (), m\<lparr>state := (state m)\<lparr>phaseActionsRemaining :=
                     clearAction (phaseActionsRemaining (state m)) action\<rparr>\<rparr>))"

definition getAllPhases :: "TurnManager \<Rightarrow> TurnPhase list" where
  "getAllPhases m = TURN_PHASES"

definition getState :: "TurnManager \<Rightarrow> TurnState" where
  "getState m = (state m)\<lparr>phaseActionsRemaining := phaseActionsRemaining (state m)\<rparr>"


definition removeTurnListener :: "TurnManager \<Rightarrow> callback \<Rightarrow> TurnManager" where
  "removeTurnListener m cb = m\<lparr>turnListeners := Set_delete cb (turnListeners m)\<rparr>"


definition removePhaseListener :: "TurnManager \<Rightarrow> callback \<Rightarrow> TurnManager" where
  "removePhaseListener m cb = m\<lparr>phaseListeners := Set_delete cb (phaseListeners m)\<rparr>"

definition clearListeners_turn :: "TurnManager \<Rightarrow> TurnManager" where
  "clearListeners_turn m = m\<lparr>turnListeners := [], phaseListeners := []\<rparr>"

definition serialize_turn :: "TurnManager \<Rightarrow> TurnState" where
  "serialize_turn m = getState m"

definition restore_turn :: "TurnManager \<Rightarrow> TurnState \<Rightarrow> TurnManager" where
  "restore_turn m st = m\<lparr>state := st\<lparr>phaseActionsRemaining := phaseActionsRemaining st\<rparr>\<rparr>"

text \<open>The states a manager passes through when \<open>nextPhase\<close> is called \<open>n\<close> times
  in a row.\<close>

fun nextPhase_states :: "nat \<Rightarrow> TurnManager \<Rightarrow> TurnManager list" where
  "nextPhase_states 0 m = [m]"
| "nextPhase_states (Suc n) m = m # nextPhase_states n (fst (snd (nextPhase m)))"

section \<open>Life manager (managers/LifeManager.ts)\<close>

record LifeChangeEvent =
  playerId :: string
  previousLife :: number
  newLife :: number
  change :: number
  source :: "string option"

text \<open>\<open>maxLife\<close> is \<open>null\<close> or a number; the optional field of the constructor's partial
  configuration can also be given as \<open>undefined\<close>, which the merge of the defaults keeps
  and which is not \<open>null\<close>.  An \<open>undefined\<close> \<open>minLife\<close> is read as \<open>NaN\<close> wherever it is
  used (\<open>Math.max\<close>, \<open>>\<close>), so \<open>NaN\<close> stands for it; \<open>startingLife\<close> is a number, as
  the interface declares it.\<close>

datatype maxLife_value = MaxNull | MaxUndefined | MaxNumber number

record LifeManagerConfig =
  startingLife :: number
  minLife :: number
  maxLife :: maxLife_value

definition DEFAULT_LIFE_CONFIG :: LifeManagerConfig where
  "DEFAULT_LIFE_CONFIG = \<lparr>startingLife = Finite 20, minLife = Finite 0, maxLife = MaxNull\<rparr>"

record LifeManager =
  lifeTotals :: "(string \<times> number) list"
  life_config :: LifeManagerConfig
  listeners :: "callback list"

type_synonym life_notification = "callback \<times> LifeChangeEvent"

definition new_LifeManager :: "LifeManagerConfig \<Rightarrow> LifeManager" where
  "new_LifeManager cfg = \<lparr>lifeTotals = [], life_config = cfg, listeners = []\<rparr>"

definition initializePlayer :: "LifeManager \<Rightarrow> string \<Rightarrow> number option \<Rightarrow> LifeManager" where
  "initializePlayer m pid startingLife_opt =
     (let life = (case startingLife_opt of None \<Rightarrow> startingLife (life_config m) | Some l \<Rightarrow> l)
      in m\<lparr>lifeTotals := AList.update pid life (lifeTotals m)\<rparr>)"

definition getLife :: "LifeManager \<Rightarrow> string \<Rightarrow> error + number" where
  "getLife m pid =
     (case map_of (lifeTotals m) pid of
        None \<Rightarrow> Inl (Error (''Player '' @ pid @ '' not found''))
      | Some life \<Rightarrow> Inr life)"

definition hasPlayer :: "LifeManager \<Rightarrow> string \<Rightarrow> bool" where
  "hasPlayer m pid = Map_has (lifeTotals m) pid"

text \<open>\<open>Math.min(clamped, undefined)\<close> is \<open>NaN\<close>.\<close>

definition clampLife :: "LifeManager \<Rightarrow> number \<Rightarrow> number" where
  "clampLife m life =
     (let clamped = Math_max life (minLife (life_config m))
      in (case maxLife (life_config m) of
            MaxNull \<Rightarrow> clamped
          | MaxUndefined \<Rightarrow> Math_min clamped NaN
          | MaxNumber mx \<Rightarrow> Math_min clamped mx))"

definition notifyListeners :: "LifeManager \<Rightarrow> LifeChangeEvent \<Rightarrow> life_notification list" where
  "notifyListeners m event = map (\<lambda>cb. (cb, event)) (listeners m)"

definition setLife ::
  "LifeManager \<Rightarrow> string \<Rightarrow> number \<Rightarrow> string option
     \<Rightarrow> (error + LifeChangeEvent) \<times> LifeManager \<times> life_notification list" where
  "setLife m pid life src =
     (case getLife m pid of
        Inl e \<Rightarrow> (Inl e, m, [])
      | Inr prev \<Rightarrow>
          (let clampedLife = clampLife m life;
               m' = m\<lparr>lifeTotals := AList.update pid clampedLife (lifeTotals m)\<rparr>;
               event = \<lparr>playerId = pid, previousLife = prev, newLife = clampedLife,
                        change = js_sub clampedLife prev, source = src\<rparr>
           in (Inr event, m', notifyListeners m' event)))"

definition changeLife ::
  "LifeManager \<Rightarrow> string \<Rightarrow> number \<Rightarrow> string option
     \<Rightarrow> (error + LifeChangeEvent) \<times> LifeManager \<times> life_notification list" where
  "changeLife m pid amount src =
     (case getLife m pid of
        Inl e \<Rightarrow> (Inl e, m, [])
      | Inr currentLife \<Rightarrow> setLife m pid (js_add currentLife amount) src)"

definition dealDamage ::
  "LifeManager \<Rightarrow> string \<Rightarrow> number \<Rightarrow> string option
     \<Rightarrow> (error + LifeChangeEvent) \<times> LifeManager \<times> life_notification list" where
  "dealDamage m pid amount src =
     (if js_lt amount (Finite 0) then (Inl (Error ''Damage amount must be non-negative''), m, [])
      else changeLife m pid (js_neg amount) src)"

definition heal ::
  "LifeManager \<Rightarrow> string \<Rightarrow> number \<Rightarrow> string option
     \<Rightarrow> (error + LifeChangeEvent) \<times> LifeManager \<times> life_notification list" where
  "heal m pid amount src =
     (if js_lt amount (Finite 0) then (Inl (Error ''Heal amount must be non-negative''), m, [])
      else changeLife m pid amount src)"

definition isAlive :: "LifeManager \<Rightarrow> string \<Rightarrow> error + bool" where
  "isAlive m pid =
     (case getLife m pid of Inl e \<Rightarrow> Inl e | Inr life \<Rightarrow> Inr (js_gt life (minLife (life_config m))))"

definition isDead :: "LifeManager \<Rightarrow> string \<Rightarrow> error + bool" where
  "isDead m pid = (case isAlive m pid of Inl e \<Rightarrow> Inl e | Inr b \<Rightarrow> Inr (\<not> b))"

definition resetLife ::
  "LifeManager \<Rightarrow> string \<Rightarrow> (error + unit) \<times> LifeManager \<times> life_notification list" where
  "resetLife m pid =
     (case setLife m pid (startingLife (life_config m)) (Some ''reset'') of
        (Inl e, m', notes) \<Rightarrow> (Inl e, m', notes)
      | (Inr _, m', notes) \<Rightarrow> (Inr (), m', notes))"

text \<open>The loop of \<open>resetAllLife\<close> over the keys of the map; a failing \<open>resetLife\<close> would
  leave the loop with the players before it already reset.\<close>

fun resetAllLife_loop ::
  "string list \<Rightarrow> LifeManager \<Rightarrow> (error + unit) \<times> LifeManager \<times> life_notification list" where
  "resetAllLife_loop [] m = (Inr (), m, [])"
| "resetAllLife_loop (pid # pids) m =
     (case resetLife m pid of
        (Inl e, m', notes) \<Rightarrow> (Inl e, m', notes)
      | (Inr _, m', notes) \<Rightarrow>
          (case resetAllLife_loop pids m' of (r, m'', notes') \<Rightarrow> (r, m'', notes @ notes')))"

definition resetAllLife ::
  "LifeManager \<Rightarrow> (error + unit) \<times> LifeManager \<times> life_notification list" where
  "resetAllLife m = resetAllLife_loop (Map_keys (lifeTotals m)) m"

definition getPlayerIds :: "LifeManager \<Rightarrow> string list" where
  "getPlayerIds m = Map_keys (lifeTotals m)"

definition getAllLifeTotals :: "LifeManager \<Rightarrow> (string \<times> number) list" where
  "getAllLifeTotals m = lifeTotals m"


definition removeListener :: "LifeManager \<Rightarrow> callback \<Rightarrow> LifeManager" where
  "removeListener m cb = m\<lparr>listeners := Set_delete cb (listeners m)\<rparr>"

definition clearListeners_life :: "LifeManager \<Rightarrow> LifeManager" where
  "clearListeners_life m = m\<lparr>listeners := []\<rparr>"

definition serialize_life :: "LifeManager \<Rightarrow> (string \<times> number) list" where
  "serialize_life m = lifeTotals m"

definition restore_life :: "LifeManager \<Rightarrow> (string \<times> number) list \<Rightarrow> LifeManager" where
  "restore_life m st = m\<lparr>lifeTotals := st\<rparr>"

definition getStartingLife :: "LifeManager \<Rightarrow> number" where
  "getStartingLife m = startingLife (life_config m)"

text \<open>The public operations of the life manager that write life totals, as a command
  language; a command that fails leaves the manager as the failing call left it.\<close>

datatype life_op =
    InitializePlayer string "number option"
  | SetLife string number "string option"
  | ChangeLife string number "string option"
  | DealDamage string number "string option"
  | Heal string number "string option"
  | ResetLife string
  | ResetAllLife

fun life_step :: "LifeManager \<Rightarrow> life_op \<Rightarrow> LifeManager" where
  "life_step m (InitializePlayer pid l) = initializePlayer m pid l"
| "life_step m (SetLife pid l src) = fst (snd (setLife m pid l src))"
| "life_step m (ChangeLife pid a src) = fst (snd (changeLife m pid a src))"
| "life_step m (DealDamage pid a src) = fst (snd (dealDamage m pid a src))"
| "life_step m (Heal pid a src) = fst (snd (heal m pid a src))"
| "life_step m (ResetLife pid) = fst (snd (resetLife m pid))"
| "life_step m ResetAllLife = fst (snd (resetAllLife m))"

definition life_run :: "LifeManager \<Rightarrow> life_op list \<Rightarrow> LifeManager" where
  "life_run m ops = foldl life_step m ops"

text \<open>The range invariant of the specification: every stored total is at least \<open>minLife\<close>
  and, when a ceiling is configured, at most \<open>maxLife\<close>; a \<open>NaN\<close> is within no range.\<close>

definition life_in_range :: "LifeManagerConfig \<Rightarrow> number \<Rightarrow> bool" where
  "life_in_range cfg l =
     (js_le (minLife cfg) l \<and>
      (case maxLife cfg of
         MaxNull \<Rightarrow> True
       | MaxUndefined \<Rightarrow> False
       | MaxNumber mx \<Rightarrow> js_le l mx))"

definition life_invariant :: "LifeManager \<Rightarrow> bool" where
  "life_invariant m = list_all (\<lambda>(pid, l). life_in_range (life_config m) l) (lifeTotals m)"

text \<open>A configuration of numbers other than \<open>NaN\<close> whose range is not empty; and a command
  that neither puts an out-of-range value into the map through the unclamped
  \<open>initializePlayer\<close> nor brings a \<open>NaN\<close> in: \<open>setLife\<close> of a number other than \<open>NaN\<close>,
  and \<open>changeLife\<close>, \<open>dealDamage\<close>, \<open>heal\<close> of a finite amount.\<close>

definition life_config_ok :: "LifeManagerConfig \<Rightarrow> bool" where
  "life_config_ok cfg =
     (startingLife cfg \<noteq> NaN \<and> minLife cfg \<noteq> NaN \<and>
      (case maxLife cfg of
         MaxNull \<Rightarrow> True
       | MaxUndefined \<Rightarrow> False
       | MaxNumber mx \<Rightarrow> js_le (minLife cfg) mx))"

fun life_op_ok :: "LifeManagerConfig \<Rightarrow> life_op \<Rightarrow> bool" where
  "life_op_ok cfg (InitializePlayer pid None) = life_in_range cfg (startingLife cfg)"
| "life_op_ok cfg (InitializePlayer pid (Some l)) = life_in_range cfg l"
| "life_op_ok cfg (SetLife pid l src) = (l \<noteq> NaN)"
| "life_op_ok cfg (ChangeLife pid a src) = is_finite a"
| "life_op_ok cfg (DealDamage pid a src) = is_finite a"
| "life_op_ok cfg (Heal pid a src) = is_finite a"
| "life_op_ok cfg (ResetLife pid) = True"
| "life_op_ok cfg ResetAllLife = True"

section \<open>Token definitions (types/token.ts)\<close>

datatype TokenId = DamageCounter | BoostCounter | ShieldCounter | StatusStun | StatusFreeze

fun tokenIdString :: "TokenId \<Rightarrow> string" where
  "tokenIdString DamageCounter = ''damage-counter''"
| "tokenIdString BoostCounter = ''boost-counter''"
| "tokenIdString ShieldCounter = ''shield-counter''"
| "tokenIdString StatusStun = ''status-stun''"
| "tokenIdString StatusFreeze = ''status-freeze''"

record TokenDefinition =
  def_id :: TokenId
  def_name :: string
  image :: string
  color :: string
  stackable :: bool
  token_value :: number

fun TOKEN_DEFINITIONS :: "TokenId \<Rightarrow> TokenDefinition" where
  "TOKEN_DEFINITIONS DamageCounter =
     \<lparr>def_id = DamageCounter, def_name = ''Damage Counter'', image = ''images/tokens/damage.png'',
      color = ''#FF4444'', stackable = True, token_value = Finite 1\<rparr>"
| "TOKEN_DEFINITIONS BoostCounter =
     \<lparr>def_id = BoostCounter, def_name = ''Boost Counter'', image = ''images/tokens/boost.png'',
      color = ''#44FF44'', stackable = True, token_value = Finite 1\<rparr>"
| "TOKEN_DEFINITIONS ShieldCounter =
     \<lparr>def_id = ShieldCounter, def_name = ''Shield Counter'', image = ''images/tokens/shield.png'',
      color = ''#4444FF'', stackable = True, token_value = Finite 1\<rparr>"
| "TOKEN_DEFINITIONS StatusStun =
     \<lparr>def_id = StatusStun, def_name = ''Stun Token'', image = ''images/tokens/stun.png'',
      color = ''#FFFF00'', stackable = False, token_value = Finite 1\<rparr>"
| "TOKEN_DEFINITIONS StatusFreeze =
     \<lparr>def_id = StatusFreeze, def_name = ''Freeze Token'', image = ''images/tokens/freeze.png'',
      color = ''#00FFFF'', stackable = False, token_value = Finite 1\<rparr>"

definition TOKEN_DEFINITIONS_keys :: "TokenId list" where
  "TOKEN_DEFINITIONS_keys = [DamageCounter, BoostCounter, ShieldCounter, StatusStun, StatusFreeze]"

definition isValidTokenId :: "TokenId \<Rightarrow> bool" where
  "isValidTokenId tid = (tid \<in> set TOKEN_DEFINITIONS_keys)"

section \<open>Token manager (managers/TokenManager.ts)\<close>

text \<open>
  \<open>TokenState\<close> is a mutable JavaScript object, and the manager's map holds references to
  such objects: \<open>serialize\<close> and \<open>restore\<close> copy the map but not the objects in it.  The
  objects therefore live in an explicit store.  An object is the association list of its
  own properties in insertion order; \<open>obj[k] = v\<close> is \<^const>\<open>AList.update\<close> and
  \<open>delete obj[k]\<close> is \<^const>\<open>AList.delete\<close>.
\<close>

type_synonym TokenState = "(TokenId \<times> number) list"

type_synonym addr = nat

record heap =
  cells :: "addr \<Rightarrow> TokenState"
  next_addr :: addr

definition empty_heap :: heap where
  "empty_heap = \<lparr>cells = (\<lambda>a. []), next_addr = 0\<rparr>"

text \<open>The object literal \<open>{}\<close>: a new object with no property.\<close>

definition alloc :: "heap \<Rightarrow> addr \<times> heap" where
  "alloc h = (next_addr h, h\<lparr>cells := (cells h)(next_addr h := []), next_addr := Suc (next_addr h)\<rparr>)"

definition heap_write :: "heap \<Rightarrow> addr \<Rightarrow> TokenState \<Rightarrow> heap" where
  "heap_write h a obj = h\<lparr>cells := (cells h)(a := obj)\<rparr>"

definition Object_keys :: "TokenState \<Rightarrow> TokenId list" where
  "Object_keys obj = map fst obj"

definition Object_values :: "TokenState \<Rightarrow> number list" where
  "Object_values obj = map snd obj"

text \<open>\<open>obj[k] ?? 0\<close>\<close>

definition prop_or_0 :: "TokenState \<Rightarrow> TokenId \<Rightarrow> number" where
  "prop_or_0 obj k = (case map_of obj k of None \<Rightarrow> Finite 0 | Some c \<Rightarrow> c)"

text \<open>An \<open>undefined\<close> \<open>stackLimit\<close> is read as \<open>NaN\<close> by \<open>Math.min\<close>, the only place it is
  used, so \<open>NaN\<close> stands for it.\<close>

record TokenManagerConfig =
  stackLimit :: number

definition DEFAULT_TOKEN_CONFIG :: TokenManagerConfig where
  "DEFAULT_TOKEN_CONFIG = \<lparr>stackLimit = Finite 99\<rparr>"

record TokenManager =
  tokens :: "(string \<times> addr) list"
  token_config :: TokenManagerConfig

definition new_TokenManager :: "TokenManagerConfig \<Rightarrow> TokenManager" where
  "new_TokenManager cfg = \<lparr>tokens = [], token_config = cfg\<rparr>"

text \<open>\<open>if (!this.tokens.has(cardId)) this.tokens.set(cardId, {})\<close>\<close>

definition ensureCard :: "heap \<Rightarrow> TokenManager \<Rightarrow> string \<Rightarrow> heap \<times> TokenManager" where
  "ensureCard h m cardId =
     (if \<not> Map_has (tokens m) cardId then
        (case alloc h of (a, h') \<Rightarrow> (h', m\<lparr>tokens := AList.update cardId a (tokens m)\<rparr>))
      else (h, m))"

definition maxCountFor :: "TokenManager \<Rightarrow> TokenDefinition \<Rightarrow> number" where
  "maxCountFor m d = (if stackable d then stackLimit (token_config m) else Finite 1)"

text \<open>The default parameter \<open>count = 1\<close>.\<close>

definition count_or_1 :: "number option \<Rightarrow> number" where
  "count_or_1 c = (case c of None \<Rightarrow> Finite 1 | Some n \<Rightarrow> n)"

definition addToken ::
  "heap \<Rightarrow> TokenManager \<Rightarrow> string \<Rightarrow> TokenId \<Rightarrow> number option
     \<Rightarrow> (error + number) \<times> heap \<times> TokenManager" where
  "addToken h m cardId tokenId count_opt =
     (let n = count_or_1 count_opt in
      if \<not> isValidTokenId tokenId then
        (Inl (Error (''Invalid token ID: '' @ tokenIdString tokenId)), h, m)
      else
        (let d = TOKEN_DEFINITIONS tokenId in
         case ensureCard h m cardId of (h1, m1) \<Rightarrow>
           (case map_of (tokens m1) cardId of
              None \<Rightarrow> (Inl (Error ''TypeError''), h1, m1)
            | Some a \<Rightarrow>
                (let cardTokens = cells h1 a;
                     currentCount = prop_or_0 cardTokens tokenId;
                     maxCount = maxCountFor m1 d;
                     newCount = Math_min (js_add currentCount n) maxCount
                 in (Inr newCount,
                     heap_write h1 a (AList.update tokenId newCount cardTokens), m1)))))"

definition removeToken ::
  "heap \<Rightarrow> TokenManager \<Rightarrow> string \<Rightarrow> TokenId \<Rightarrow> number option
     \<Rightarrow> (error + number) \<times> heap \<times> TokenManager" where
  "removeToken h m cardId tokenId count_opt =
     (let n = count_or_1 count_opt in
      if \<not> isValidTokenId tokenId then
        (Inl (Error (''Invalid token ID: '' @ tokenIdString tokenId)), h, m)
      else
        (case map_of (tokens m) cardId of
           None \<Rightarrow> (Inr (Finite 0), h, m)
         | Some a \<Rightarrow>
             (let cardTokens = cells h a;
                  currentCount = prop_or_0 cardTokens tokenId;
                  newCount = Math_max (js_sub currentCount n) (Finite 0);
                  h1 = (if js_strict_eq newCount (Finite 0)
                        then heap_write h a (AList.delete tokenId cardTokens)
                        else heap_write h a (AList.update tokenId newCount cardTokens));
                  m1 = (if length (Object_keys (cells h1 a)) = 0
                        then m\<lparr>tokens := AList.delete cardId (tokens m)\<rparr>
                        else m)
              in (Inr newCount, h1, m1))))"

definition getTokenCount :: "heap \<Rightarrow> TokenManager \<Rightarrow> string \<Rightarrow> TokenId \<Rightarrow> number" where
  "getTokenCount h m cardId tokenId =
     (case map_of (tokens m) cardId of
        None \<Rightarrow> Finite 0
      | Some a \<Rightarrow> prop_or_0 (cells h a) tokenId)"

definition setTokenCount ::
  "heap \<Rightarrow> TokenManager \<Rightarrow> string \<Rightarrow> TokenId \<Rightarrow> number
     \<Rightarrow> (error + unit) \<times> heap \<times> TokenManager" where
  "setTokenCount h m cardId tokenId n =
     (if \<not> isValidTokenId tokenId then
        (Inl (Error (''Invalid token ID: '' @ tokenIdString tokenId)), h, m)
      else
        (let d = TOKEN_DEFINITIONS tokenId;
             maxCount = maxCountFor m d;
             clampedCount = Math_min (Math_max n (Finite 0)) maxCount
         in if js_strict_eq clampedCount (Finite 0) then
              (case removeToken h m cardId tokenId (Some (getTokenCount h m cardId tokenId)) of
                 (Inl e, h', m') \<Rightarrow> (Inl e, h', m')
               | (Inr _, h', m') \<Rightarrow> (Inr (), h', m'))
            else
              (case ensureCard h m cardId of (h1, m1) \<Rightarrow>
                 (case map_of (tokens m1) cardId of
                    None \<Rightarrow> (Inl (Error ''TypeError''), h1, m1)
                  | Some a \<Rightarrow>
                      (Inr (), heap_write h1 a (AList.update tokenId clampedCount (cells h1 a)),
                       m1)))))"

text \<open>\<open>{ ...(this.tokens.get(cardId) ?? {}) }\<close>: the properties of the card's object, as a
  value of their own.\<close>

definition getTokensOnCard :: "heap \<Rightarrow> TokenManager \<Rightarrow> string \<Rightarrow> TokenState" where
  "getTokensOnCard h m cardId =
     (case map_of (tokens m) cardId of None \<Rightarrow> [] | Some a \<Rightarrow> cells h a)"

definition hasTokens :: "heap \<Rightarrow> TokenManager \<Rightarrow> string \<Rightarrow> bool" where
  "hasTokens h m cardId =
     (case map_of (tokens m) cardId of
        None \<Rightarrow> False
      | Some a \<Rightarrow> length (Object_keys (cells h a)) > 0)"

definition hasToken :: "heap \<Rightarrow> TokenManager \<Rightarrow> string \<Rightarrow> TokenId \<Rightarrow> bool" where
  "hasToken h m cardId tokenId = js_gt (getTokenCount h m cardId tokenId) (Finite 0)"

definition clearTokens :: "TokenManager \<Rightarrow> string \<Rightarrow> TokenManager" where
  "clearTokens m cardId = m\<lparr>tokens := AList.delete cardId (tokens m)\<rparr>"

definition clearAllTokens :: "TokenManager \<Rightarrow> TokenManager" where
  "clearAllTokens m = m\<lparr>tokens := []\<rparr>"

definition getTokenDefinition :: "TokenManager \<Rightarrow> TokenId \<Rightarrow> TokenDefinition" where
  "getTokenDefinition m tokenId = TOKEN_DEFINITIONS tokenId"

definition getAllTokenDefinitions :: "TokenManager \<Rightarrow> TokenDefinition list" where
  "getAllTokenDefinitions m = map TOKEN_DEFINITIONS TOKEN_DEFINITIONS_keys"

definition getCardsWithTokens :: "TokenManager \<Rightarrow> string list" where
  "getCardsWithTokens m = Map_keys (tokens m)"

text \<open>\<open>new Map(this.tokens)\<close>: a new map with the same keys and the same object
  references.\<close>

definition serialize_token :: "TokenManager \<Rightarrow> (string \<times> addr) list" where
  "serialize_token m = tokens m"

definition restore_token :: "TokenManager \<Rightarrow> (string \<times> addr) list \<Rightarrow> TokenManager" where
  "restore_token m st = m\<lparr>tokens := st\<rparr>"

definition getTotalTokenCount :: "heap \<Rightarrow> TokenManager \<Rightarrow> number" where
  "getTotalTokenCount h m =
     foldl (\<lambda>total a. foldl (\<lambda>t c. js_add t c) total (Object_values (cells h a))) (Finite 0)
       (Map_values (tokens m))"

text \<open>The public mutating operations of the token manager as a command language.\<close>

datatype token_op =
    AddToken string TokenId "number option"
  | RemoveToken string TokenId "number option"
  | SetTokenCount string TokenId number
  | ClearTokens string
  | ClearAllTokens

fun token_step :: "heap \<times> TokenManager \<Rightarrow> token_op \<Rightarrow> heap \<times> TokenManager" where
  "token_step (h, m) (AddToken c k n) = snd (addToken h m c k n)"
| "token_step (h, m) (RemoveToken c k n) = snd (removeToken h m c k n)"
| "token_step (h, m) (SetTokenCount c k n) = snd (setTokenCount h m c k n)"
| "token_step (h, m) (ClearTokens c) = (h, clearTokens m c)"
| "token_step (h, m) ClearAllTokens = (h, clearAllTokens m)"

definition token_run :: "heap \<times> TokenManager \<Rightarrow> token_op list \<Rightarrow> heap \<times> TokenManager" where
  "token_run hm ops = foldl token_step hm ops"

text \<open>The invariant of the specification: every card in the outer map has an object with
  at least one kind, and every count stored is greater than 0.\<close>

definition card_ok :: "heap \<Rightarrow> addr \<Rightarrow> bool" where
  "card_ok h a = (cells h a \<noteq> [] \<and> list_all (\<lambda>(k, c). js_gt c (Finite 0)) (cells h a))"

definition token_invariant :: "heap \<Rightarrow> TokenManager \<Rightarrow> bool" where
  "token_invariant h m = list_all (\<lambda>(cardId, a). card_ok h a) (tokens m)"

section \<open>Properties of the turn manager\<close>

lemma getNextPhase_simps:
  "getNextPhase PStart = PUntap" "getNextPhase PUntap = PDraw" "getNextPhase PDraw = PResource"
  "getNextPhase PResource = PMain" "getNextPhase PMain = PClash" "getNextPhase PClash = PMain2"
  "getNextPhase PMain2 = PEnd" "getNextPhase PEnd = PStart"
  by (simp_all add: getNextPhase_def TURN_PHASES_def Array_get_def)

lemma nextPhase_phase: "phase (state (fst (snd (nextPhase m)))) = getNextPhase (phase (state m))"
  by (cases "phase (state m)")
     (simp_all add: nextPhase_def endTurn_def Let_def getNextPhase_simps)

lemma nextPhase_turnNumber:
  "turnNumber (state (fst (snd (nextPhase m)))) =
     (if phase (state m) = PEnd then turnNumber (state m) + 1 else turnNumber (state m))"
  by (cases "phase (state m)")
     (simp_all add: nextPhase_def endTurn_def Let_def getNextPhase_simps)

lemma nextPhase_activePlayerId:
  "activePlayerId (state (fst (snd (nextPhase m)))) =
     (if phase (state m) = PEnd
      then (if activePlayerId (state m) = fst (playerIds m) then snd (playerIds m)
            else fst (playerIds m))
      else activePlayerId (state m))"
  by (cases "phase (state m)")
     (simp_all add: nextPhase_def endTurn_def Let_def getNextPhase_simps)

lemma nextPhase_playerIds: "playerIds (fst (snd (nextPhase m))) = playerIds m"
  by (cases "phase (state m)")
     (simp_all add: nextPhase_def endTurn_def Let_def getNextPhase_simps)

text \<open>
  Claim C1.  A turn manager constructed for two players starts at turn 1 in phase
  \<open>start\<close> with the first player active.  Eight calls of \<open>nextPhase\<close> visit the phases
  start, untap, draw, resource, main, clash, main2, end, start in this order; the turn
  number is 1 in the first eight states and 2 in the ninth, and the active player is the
  first player in the first eight states and the second player in the ninth: the turn
  number is incremented once and the active player is swapped once.  This holds for
  every configuration, the default one included.
\<close>

theorem C1_phase_cycle:
  "map (\<lambda>m. (phase (state m), turnNumber (state m), activePlayerId (state m)))
       (nextPhase_states 8 (new_TurnManager p1 p2 cfg))
   = [(PStart, 1, p1), (PUntap, 1, p1), (PDraw, 1, p1), (PResource, 1, p1), (PMain, 1, p1),
      (PClash, 1, p1), (PMain2, 1, p1), (PEnd, 1, p1), (PStart, 2, p2)]"
proof -
  have init: "phase (state (new_TurnManager p1 p2 cfg)) = PStart"
    "turnNumber (state (new_TurnManager p1 p2 cfg)) = 1"
    "activePlayerId (state (new_TurnManager p1 p2 cfg)) = p1"
    "playerIds (new_TurnManager p1 p2 cfg) = (p1, p2)"
    by (simp_all add: new_TurnManager_def)
  show ?thesis
    by (simp add: eval_nat_numeral nextPhase_phase nextPhase_turnNumber
          nextPhase_activePlayerId nextPhase_playerIds init getNextPhase_simps)
qed

lemma nextPhase_from_untap:
  "phase (state m) = PUntap \<Longrightarrow>
   state (fst (snd (nextPhase m))) =
     (state m)\<lparr>phase := PDraw,
               phaseActionsRemaining :=
                 (if turnNumber (state m) = 1 \<and> skipFirstDraw (turn_config m)
                  then (DEFAULT_PHASE_ACTIONS PDraw)\<lparr>canDraw := False\<rparr>
                  else DEFAULT_PHASE_ACTIONS PDraw)\<rparr>"
  by (simp add: nextPhase_def Let_def getNextPhase_simps)

lemma setPhase_state:
  "fst (snd (setPhase m ph)) =
     m\<lparr>state := (state m)\<lparr>phase := ph, phaseActionsRemaining := DEFAULT_PHASE_ACTIONS ph\<rparr>\<rparr>"
  by (cases ph) (simp_all add: setPhase_def Let_def TURN_PHASES_def)

text \<open>
  Claim C5.  \<open>nextPhase\<close> enters the draw phase exactly from the untap phase.  When it
  does so with \<open>skipFirstDraw\<close> enabled on turn 1, the action flags are the defaults of
  the draw phase with \<open>canDraw\<close> cleared; on a turn number greater than 1 they are the
  defaults of the draw phase, with \<open>canDraw\<close> true.  \<open>setPhase\<close> to the draw phase
  always succeeds and installs the defaults of the draw phase, \<open>canDraw\<close> true, whatever
  the turn number and the configuration.
\<close>

theorem C5_first_turn_draw_skip:
  "(phase (state m) = PUntap \<longrightarrow>
      phase (state (fst (snd (nextPhase m)))) = PDraw \<and>
      (skipFirstDraw (turn_config m) \<and> turnNumber (state m) = 1 \<longrightarrow>
         phaseActionsRemaining (state (fst (snd (nextPhase m))))
           = (DEFAULT_PHASE_ACTIONS PDraw)\<lparr>canDraw := False\<rparr> \<and>
         \<not> canDraw (phaseActionsRemaining (state (fst (snd (nextPhase m)))))) \<and>
      (1 < turnNumber (state m) \<longrightarrow>
         phaseActionsRemaining (state (fst (snd (nextPhase m)))) = DEFAULT_PHASE_ACTIONS PDraw \<and>
         canDraw (phaseActionsRemaining (state (fst (snd (nextPhase m))))))) \<and>
   fst (setPhase m PDraw) = Inr () \<and>
   phase (state (fst (snd (setPhase m PDraw)))) = PDraw \<and>
   phaseActionsRemaining (state (fst (snd (setPhase m PDraw)))) = DEFAULT_PHASE_ACTIONS PDraw \<and>
   canDraw (phaseActionsRemaining (state (fst (snd (setPhase m PDraw)))))"
proof -
  have a: "fst (setPhase m PDraw) = Inr ()"
    by (simp add: setPhase_def Let_def TURN_PHASES_def)
  have b: "canDraw (DEFAULT_PHASE_ACTIONS PDraw)"
    by (simp add: mkActions_def)
  show ?thesis
    using a b by (simp add: nextPhase_from_untap setPhase_state)
qed

text \<open>The statement of C5 at two managers: the default manager after its first
  \<open>nextPhase\<close> (untap phase of turn 1), and a manager in the untap phase of turn 2.\<close>

theorem C5_first_turn_draw_skip_witness:
  "(let m1 = fst (snd (nextPhase (new_TurnManager ''p1'' ''p2'' DEFAULT_TURN_CONFIG)));
        m2 = fst (snd (setPhase (fst (snd (endTurn
               (new_TurnManager ''p1'' ''p2'' DEFAULT_TURN_CONFIG)))) PUntap))
    in phase (state m1) = PUntap \<and> skipFirstDraw (turn_config m1) \<and> turnNumber (state m1) = 1 \<and>
       \<not> canDraw (phaseActionsRemaining (state (fst (snd (nextPhase m1))))) \<and>
       phase (state m2) = PUntap \<and> 1 < turnNumber (state m2) \<and>
       canDraw (phaseActionsRemaining (state (fst (snd (nextPhase m2))))) \<and>
       canDraw (phaseActionsRemaining (state (fst (snd (setPhase m1 PDraw))))))"
proof -
  define m0 where "m0 = new_TurnManager ''p1'' ''p2'' DEFAULT_TURN_CONFIG"
  define m1 where "m1 = fst (snd (nextPhase m0))"
  define m2 where "m2 = fst (snd (setPhase (fst (snd (endTurn m0))) PUntap))"
  have m0: "phase (state m0) = PStart" "turnNumber (state m0) = 1"
    "skipFirstDraw (turn_config m0)"
    by (simp_all add: m0_def new_TurnManager_def DEFAULT_TURN_CONFIG_def)
  have h1: "phase (state m1) = PUntap" "turnNumber (state m1) = 1"
    "skipFirstDraw (turn_config m1)"
    using m0 by (simp_all add: m1_def nextPhase_def Let_def getNextPhase_simps)
  have h2: "phase (state m2) = PUntap" "1 < turnNumber (state m2)"
    using m0 by (simp_all add: m2_def setPhase_state endTurn_def Let_def)
  from C5_first_turn_draw_skip [of m1] C5_first_turn_draw_skip [of m2] h1 h2
  have "\<not> canDraw (phaseActionsRemaining (state (fst (snd (nextPhase m1)))))"
    "canDraw (phaseActionsRemaining (state (fst (snd (nextPhase m2)))))"
    "canDraw (phaseActionsRemaining (state (fst (snd (setPhase m1 PDraw)))))"
    by (simp_all add: mkActions_def)
  with h1 h2 show ?thesis
    by (simp add: m0_def m1_def m2_def)
qed








section \<open>Facts about numbers\<close>

lemma round_double_not_NaN [simp]: "round_double q \<noteq> NaN"
  by (simp add: round_double_def Let_def)

lemma exact_integer_of_int: "\<bar>z\<bar> \<le> 2 ^ 53 \<Longrightarrow> exact_integer (of_int z)"
proof -
  assume "\<bar>z\<bar> \<le> 2 ^ 53"
  then have "(of_int \<bar>z\<bar> :: rat) \<le> of_int (2 ^ 53)"
    by (simp only: of_int_le_iff)
  then show ?thesis
    by (simp add: exact_integer_def)
qed

lemma round_double_int: "\<bar>z\<bar> \<le> 2 ^ 53 \<Longrightarrow> round_double (of_int z) = Finite (of_int z)"
  by (simp add: round_double_def exact_integer_of_int)

lemma num_of_int_eq [simp]: "num_of_int a = num_of_int b \<longleftrightarrow> a = b"
  by (simp add: num_of_int_def)

lemma num_of_int_not_NaN [simp]: "num_of_int a \<noteq> NaN"
  by (simp add: num_of_int_def)




lemma js_lt_int [simp]: "js_lt (num_of_int a) (num_of_int b) \<longleftrightarrow> a < b"
  by (simp add: num_of_int_def)

lemma Math_min_int [simp]: "Math_min (num_of_int a) (num_of_int b) = num_of_int (min a b)"
  by (simp add: Math_min_def min_def)

lemma Math_max_int [simp]: "Math_max (num_of_int a) (num_of_int b) = num_of_int (max a b)"
  by (simp add: Math_max_def max_def)

lemma js_strict_eq_int [simp]: "js_strict_eq (num_of_int a) (num_of_int b) \<longleftrightarrow> a = b"
  by (simp add: js_strict_eq_def)


lemma js_le_not_NaN: "js_le x y \<Longrightarrow> x \<noteq> NaN \<and> y \<noteq> NaN"
  by (cases x; cases y) (auto simp: js_le_def)

lemma js_add_finite_not_NaN: "x \<noteq> NaN \<Longrightarrow> is_finite a \<Longrightarrow> js_add x a \<noteq> NaN"
  by (cases x; cases a) (auto simp: is_finite_def)

lemma js_neg_finite: "is_finite a \<Longrightarrow> is_finite (js_neg a)"
  by (cases a) (auto simp: is_finite_def)


lemma round_double_numeral:
  "numeral n \<le> (2 ^ 53 :: int) \<Longrightarrow> round_double (numeral n) = Finite (numeral n)"
  "numeral n \<le> (2 ^ 53 :: int) \<Longrightarrow> round_double (- numeral n) = Finite (- numeral n)"
  "round_double 0 = Finite 0" "round_double 1 = Finite 1" "round_double (- 1) = Finite (- 1)"
  using round_double_int [of "numeral n"] round_double_int [of "- numeral n"]
    round_double_int [of 0] round_double_int [of 1] round_double_int [of "- 1"]
  by simp_all

section \<open>Properties of the life manager\<close>

text \<open>
  Claim C7.  For every manager, every player and every amount below 0, \<open>dealDamage\<close>
  and \<open>heal\<close> fail with the errors "Damage amount must be non-negative" and "Heal
  amount must be non-negative", leave the manager (its whole player-to-life map
  included) as it was, and notify nobody.  For every amount that is not below 0, which
  every amount of at least 0 is, they are \<open>changeLife\<close> with the negated amount and with
  the amount.
\<close>

theorem C7_negative_amount_rejected:
  "(js_lt amount (Finite 0) \<longrightarrow>
      dealDamage m pid amount src = (Inl (Error ''Damage amount must be non-negative''), m, []) \<and>
      heal m pid amount src = (Inl (Error ''Heal amount must be non-negative''), m, []) \<and>
      getLife (fst (snd (dealDamage m pid amount src))) pid = getLife m pid \<and>
      getLife (fst (snd (heal m pid amount src))) pid = getLife m pid) \<and>
   (\<not> js_lt amount (Finite 0) \<longrightarrow>
      dealDamage m pid amount src = changeLife m pid (js_neg amount) src \<and>
      heal m pid amount src = changeLife m pid amount src) \<and>
   (js_le (Finite 0) amount \<longrightarrow> \<not> js_lt amount (Finite 0))"
  by (cases amount) (auto simp: dealDamage_def heal_def js_le_def)

lemma getLife_initializePlayer:
  "getLife (initializePlayer m pid (Some l)) pid = Inr l"
  by (simp add: getLife_def initializePlayer_def update_conv')

lemma setLife_found:
  "getLife m pid = Inr prev \<Longrightarrow>
   setLife m pid v src =
     (Inr \<lparr>playerId = pid, previousLife = prev, newLife = clampLife m v,
            change = js_sub (clampLife m v) prev, source = src\<rparr>,
      m\<lparr>lifeTotals := AList.update pid (clampLife m v) (lifeTotals m)\<rparr>,
      map (\<lambda>cb. (cb, \<lparr>playerId = pid, previousLife = prev, newLife = clampLife m v,
                        change = js_sub (clampLife m v) prev, source = src\<rparr>)) (listeners m))"
  by (simp add: setLife_def Let_def notifyListeners_def)

lemma changeLife_found:
  "getLife m pid = Inr prev \<Longrightarrow> changeLife m pid a src = setLife m pid (js_add prev a) src"
  by (simp add: changeLife_def)

text \<open>
  C7 at a default manager with player p1 at 20 life, for the amounts -5 and 5.
\<close>

theorem C7_negative_amount_rejected_witness:
  "(let m = initializePlayer (new_LifeManager DEFAULT_LIFE_CONFIG) ''p1'' (Some (Finite 20))
    in getLife m ''p1'' = Inr (Finite 20) \<and>
       js_lt (Finite (-5)) (Finite 0) \<and>
       dealDamage m ''p1'' (Finite (-5)) None
         = (Inl (Error ''Damage amount must be non-negative''), m, []) \<and>
       heal m ''p1'' (Finite (-5)) None
         = (Inl (Error ''Heal amount must be non-negative''), m, []) \<and>
       \<not> js_lt (Finite 5) (Finite 0) \<and>
       dealDamage m ''p1'' (Finite 5) None = changeLife m ''p1'' (Finite (-5)) None \<and>
       getLife (fst (snd (dealDamage m ''p1'' (Finite 5) None))) ''p1'' = Inr (Finite 15) \<and>
       heal m ''p1'' (Finite 5) None = changeLife m ''p1'' (Finite 5) None \<and>
       getLife (fst (snd (heal m ''p1'' (Finite 5) None))) ''p1'' = Inr (Finite 25))"
proof -
  define m where
    "m = initializePlayer (new_LifeManager DEFAULT_LIFE_CONFIG) ''p1'' (Some (Finite 20))"
  have g: "getLife m ''p1'' = Inr (Finite 20)"
    by (simp add: m_def getLife_initializePlayer)
  have c: "minLife (life_config m) = Finite 0" "maxLife (life_config m) = MaxNull"
    by (simp_all add: m_def initializePlayer_def new_LifeManager_def DEFAULT_LIFE_CONFIG_def)
  have d: "getLife (fst (snd (changeLife m ''p1'' (Finite (-5)) None))) ''p1'' = Inr (Finite 15)"
    "getLife (fst (snd (changeLife m ''p1'' (Finite 5) None))) ''p1'' = Inr (Finite 25)"
    using c by (simp_all add: changeLife_found [OF g] setLife_found [OF g] clampLife_def
        Math_max_def getLife_def update_conv' round_double_numeral)
  from C7_negative_amount_rejected [of "Finite (-5)" m "''p1''" None]
       C7_negative_amount_rejected [of "Finite 5" m "''p1''" None] g d
  show ?thesis
    by (simp add: m_def [symmetric])
qed


lemma js_neg_int [simp]: "js_neg (num_of_int k) = num_of_int (- k)"
  by (simp add: num_of_int_def)







lemma list_all_update:
  "P (k, v) \<Longrightarrow> list_all P al \<Longrightarrow> list_all P (AList.update k v al)"
  by (induction al) auto

lemma clampLife_in_range:
  "life_config_ok (life_config m) \<Longrightarrow> v \<noteq> NaN \<Longrightarrow>
   life_in_range (life_config m) (clampLife m v)"
  by (cases v; cases "minLife (life_config m)"; cases "maxLife (life_config m)")
     (auto simp: clampLife_def life_in_range_def life_config_ok_def Let_def Math_max_def
        Math_min_def js_le_def elim: js_lt.elims)


lemma setLife_config: "life_config (fst (snd (setLife m pid v src))) = life_config m"
  by (simp add: setLife_def Let_def split: sum.splits)

lemma setLife_invariant:
  assumes "life_config_ok (life_config m)" and "life_invariant m" and "v \<noteq> NaN"
  shows "life_invariant (fst (snd (setLife m pid v src)))"
proof (cases "getLife m pid")
  case (Inl e)
  then show ?thesis using assms by (simp add: setLife_def)
next
  case (Inr prev)
  have "life_in_range (life_config m) (clampLife m v)"
    by (rule clampLife_in_range [OF assms(1,3)])
  then show ?thesis
    using assms(2) by (simp add: setLife_found [OF Inr] life_invariant_def list_all_update)
qed

lemma stored_not_NaN:
  assumes "life_invariant m" and "getLife m pid = Inr cur"
  shows "cur \<noteq> NaN"
proof -
  from assms(2) have "map_of (lifeTotals m) pid = Some cur"
    by (simp add: getLife_def split: option.splits)
  then have "(pid, cur) \<in> set (lifeTotals m)"
    by (rule map_of_SomeD)
  with assms(1) have "life_in_range (life_config m) cur"
    by (auto simp: life_invariant_def list_all_iff)
  then show ?thesis
    using js_le_not_NaN [of "minLife (life_config m)" cur] by (simp add: life_in_range_def)
qed

lemma changeLife_config: "life_config (fst (snd (changeLife m pid a src))) = life_config m"
  by (simp add: changeLife_def setLife_config split: sum.splits)

lemma changeLife_invariant:
  assumes "life_config_ok (life_config m)" and "life_invariant m" and "is_finite a"
  shows "life_invariant (fst (snd (changeLife m pid a src)))"
proof (cases "getLife m pid")
  case (Inl e)
  then show ?thesis using assms by (simp add: changeLife_def)
next
  case (Inr cur)
  have "js_add cur a \<noteq> NaN"
    using stored_not_NaN [OF assms(2) Inr] assms(3) by (rule js_add_finite_not_NaN)
  then show ?thesis
    using assms(1,2) by (simp add: changeLife_found [OF Inr] setLife_invariant)
qed

lemma resetLife_state:
  "fst (snd (resetLife m pid)) =
     fst (snd (setLife m pid (startingLife (life_config m)) (Some ''reset'')))"
  by (simp add: resetLife_def split: prod.splits sum.splits)

lemma resetAllLife_loop_keeps:
  "life_config_ok (life_config m) \<Longrightarrow> life_invariant m \<Longrightarrow>
   life_invariant (fst (snd (resetAllLife_loop pids m))) \<and>
   life_config (fst (snd (resetAllLife_loop pids m))) = life_config m"
proof (induction pids arbitrary: m)
  case Nil
  then show ?case by simp
next
  case (Cons pid pids)
  obtain r m' ns where r: "resetLife m pid = (r, m', ns)"
    by (cases "resetLife m pid") auto
  then have m': "m' = fst (snd (setLife m pid (startingLife (life_config m)) (Some ''reset'')))"
    using resetLife_state [of m pid] by simp
  have c: "life_config m' = life_config m"
    by (simp add: m' setLife_config)
  have "startingLife (life_config m) \<noteq> NaN"
    using Cons.prems(1) by (simp add: life_config_ok_def)
  then have i: "life_invariant m'"
    using Cons.prems by (simp add: m' setLife_invariant)
  show ?case
  proof (cases r)
    case (Inl e)
    then show ?thesis using r c i by simp
  next
    case (Inr u)
    from Cons.IH [of m'] Cons.prems(1) c i
    have "life_invariant (fst (snd (resetAllLife_loop pids m'))) \<and>
          life_config (fst (snd (resetAllLife_loop pids m'))) = life_config m"
      by simp
    then show ?thesis
      using r Inr by (auto split: prod.splits)
  qed
qed

lemma life_step_keeps:
  assumes ok: "life_config_ok (life_config m)" and op: "life_op_ok (life_config m) op"
    and inv: "life_invariant m"
  shows "life_invariant (life_step m op) \<and> life_config (life_step m op) = life_config m"
proof (cases op)
  case (InitializePlayer pid l)
  then show ?thesis
    using op inv
    by (cases l) (simp_all add: initializePlayer_def life_invariant_def list_all_update)
next
  case (SetLife pid l src)
  then show ?thesis using assms by (simp add: setLife_invariant setLife_config)
next
  case (ChangeLife pid a src)
  then show ?thesis using assms by (simp add: changeLife_invariant changeLife_config)
next
  case (DealDamage pid a src)
  then show ?thesis
    using assms
    by (simp add: dealDamage_def changeLife_invariant changeLife_config js_neg_finite)
next
  case (Heal pid a src)
  then show ?thesis
    using assms by (simp add: heal_def changeLife_invariant changeLife_config)
next
  case (ResetLife pid)
  have "startingLife (life_config m) \<noteq> NaN"
    using ok by (simp add: life_config_ok_def)
  with ResetLife show ?thesis
    using assms by (simp add: resetLife_state setLife_invariant setLife_config)
next
  case ResetAllLife
  then show ?thesis
    using assms resetAllLife_loop_keeps [of m "Map_keys (lifeTotals m)"]
    by (simp add: resetAllLife_def)
qed

lemma life_run_keeps:
  "life_config_ok (life_config m) \<Longrightarrow> list_all (life_op_ok (life_config m)) ops \<Longrightarrow>
   life_invariant m \<Longrightarrow> life_invariant (life_run m ops)"
proof (induction ops arbitrary: m)
  case Nil
  then show ?case by (simp add: life_run_def)
next
  case (Cons op ops)
  from Cons.prems have s: "life_invariant (life_step m op)"
    "life_config (life_step m op) = life_config m"
    using life_step_keeps [of m op] by simp_all
  from Cons.IH [of "life_step m op"] Cons.prems s
  show ?case by (simp add: life_run_def)
qed

text \<open>
  Claim C3, as the code has it.  \<open>initializePlayer\<close> stores its value unclamped,
  \<open>clampLife\<close> applies the ceiling after the floor, and \<open>Math.max\<close>, \<open>Math.min\<close> and
  \<open>+\<close> hand a \<open>NaN\<close> on.  So: for a configuration whose \<open>startingLife\<close> and \<open>minLife\<close>
  are numbers other than \<open>NaN\<close> and whose \<open>maxLife\<close> is null or a number not below
  \<open>minLife\<close>, and for every sequence of \<open>initializePlayer\<close>, \<open>setLife\<close>, \<open>changeLife\<close>,
  \<open>dealDamage\<close>, \<open>heal\<close>, \<open>resetLife\<close> and \<open>resetAllLife\<close> in which every
  \<open>initializePlayer\<close> stores a value within the range (the configured starting life when
  none is given), every \<open>setLife\<close> is given a number other than \<open>NaN\<close>, and every
  \<open>changeLife\<close>, \<open>dealDamage\<close> and \<open>heal\<close> is given a finite amount, every life total in
  the map lies within \<open>[minLife, maxLife]\<close>.
\<close>

theorem C3_life_range_invariant:
  "life_config_ok cfg \<Longrightarrow> list_all (life_op_ok cfg) ops \<Longrightarrow>
   life_invariant (life_run (new_LifeManager cfg) ops)"
  using life_run_keeps [of "new_LifeManager cfg" ops]
  by (simp add: new_LifeManager_def life_invariant_def)


lemmas life_eval =
  life_run_def new_LifeManager_def DEFAULT_LIFE_CONFIG_def initializePlayer_def
  setLife_def changeLife_def dealDamage_def heal_def resetLife_def resetAllLife_def
  getLife_def clampLife_def notifyListeners_def Map_keys_def Math_max_def Math_min_def
  js_sub_def Let_def round_double_numeral

text \<open>
  The invariant as C3 states it fails: \<open>initializePlayer("p1", -5)\<close> on a default
  manager stores -5, below \<open>minLife = 0\<close>; with \<open>minLife = 10\<close>, \<open>maxLife = 5\<close> the value
  that \<open>setLife("p1", 7)\<close> stores is 5, below \<open>minLife\<close>; \<open>setLife("p1", NaN)\<close> on a
  default manager stores \<open>NaN\<close>; a manager constructed with \<open>maxLife: undefined\<close> stores
  \<open>NaN\<close> at \<open>setLife("p1", 7)\<close>; and \<open>heal("p1", Infinity)\<close> followed by
  \<open>dealDamage("p1", Infinity)\<close> on a default manager stores \<open>NaN\<close>.
\<close>

theorem C3_counterexample:
  "\<not> life_invariant (life_run (new_LifeManager DEFAULT_LIFE_CONFIG)
                        [InitializePlayer ''p1'' (Some (Finite (- 5)))]) \<and>
   \<not> life_invariant (life_run (new_LifeManager \<lparr>startingLife = Finite 20, minLife = Finite 10,
                                                  maxLife = MaxNumber (Finite 5)\<rparr>)
                        [InitializePlayer ''p1'' (Some (Finite 10)), SetLife ''p1'' (Finite 7) None]) \<and>
   lifeTotals (life_run (new_LifeManager DEFAULT_LIFE_CONFIG)
                 [InitializePlayer ''p1'' None, SetLife ''p1'' NaN None]) = [(''p1'', NaN)] \<and>
   \<not> life_invariant (life_run (new_LifeManager DEFAULT_LIFE_CONFIG)
                        [InitializePlayer ''p1'' None, SetLife ''p1'' NaN None]) \<and>
   lifeTotals (life_run (new_LifeManager \<lparr>startingLife = Finite 20, minLife = Finite 0,
                                           maxLife = MaxUndefined\<rparr>)
                 [InitializePlayer ''p1'' None, SetLife ''p1'' (Finite 7) None]) = [(''p1'', NaN)] \<and>
   lifeTotals (life_run (new_LifeManager DEFAULT_LIFE_CONFIG)
                 [InitializePlayer ''p1'' None, Heal ''p1'' PosInf None,
                  DealDamage ''p1'' PosInf None]) = [(''p1'', NaN)] \<and>
   \<not> life_invariant (life_run (new_LifeManager DEFAULT_LIFE_CONFIG)
                        [InitializePlayer ''p1'' None, Heal ''p1'' PosInf None,
                         DealDamage ''p1'' PosInf None])"
  by (simp add: life_eval life_invariant_def life_in_range_def js_le_def)

text \<open>
  C3 at the default configuration and a sequence that uses every kind of operation; it
  ends with p1 at 0 and p2 at 110.
\<close>

theorem C3_life_range_invariant_witness:
  "life_config_ok DEFAULT_LIFE_CONFIG \<and>
   list_all (life_op_ok DEFAULT_LIFE_CONFIG)
     [InitializePlayer ''p1'' None, InitializePlayer ''p2'' (Some (Finite 15)),
      SetLife ''p2'' (Finite 3) None, ResetLife ''p2'', SetLife ''p1'' (Finite (- 3)) None,
      ResetAllLife, DealDamage ''p1'' (Finite 25) None, Heal ''p2'' (Finite 100) None,
      ChangeLife ''p2'' (Finite (- 10)) None] \<and>
   life_invariant (life_run (new_LifeManager DEFAULT_LIFE_CONFIG)
     [InitializePlayer ''p1'' None, InitializePlayer ''p2'' (Some (Finite 15)),
      SetLife ''p2'' (Finite 3) None, ResetLife ''p2'', SetLife ''p1'' (Finite (- 3)) None,
      ResetAllLife, DealDamage ''p1'' (Finite 25) None, Heal ''p2'' (Finite 100) None,
      ChangeLife ''p2'' (Finite (- 10)) None]) \<and>
   lifeTotals (life_run (new_LifeManager DEFAULT_LIFE_CONFIG)
     [InitializePlayer ''p1'' None, InitializePlayer ''p2'' (Some (Finite 15)),
      SetLife ''p2'' (Finite 3) None, ResetLife ''p2'', SetLife ''p1'' (Finite (- 3)) None,
      ResetAllLife, DealDamage ''p1'' (Finite 25) None, Heal ''p2'' (Finite 100) None,
      ChangeLife ''p2'' (Finite (- 10)) None]) = [(''p1'', Finite 0), (''p2'', Finite 110)]"
proof -
  have a: "life_config_ok DEFAULT_LIFE_CONFIG"
    by (simp add: life_config_ok_def DEFAULT_LIFE_CONFIG_def)
  have b: "list_all (life_op_ok DEFAULT_LIFE_CONFIG)
     [InitializePlayer ''p1'' None, InitializePlayer ''p2'' (Some (Finite 15)),
      SetLife ''p2'' (Finite 3) None, ResetLife ''p2'', SetLife ''p1'' (Finite (- 3)) None,
      ResetAllLife, DealDamage ''p1'' (Finite 25) None, Heal ''p2'' (Finite 100) None,
      ChangeLife ''p2'' (Finite (- 10)) None]"
    by (simp add: life_in_range_def DEFAULT_LIFE_CONFIG_def js_le_def is_finite_def)
  have c: "lifeTotals (life_run (new_LifeManager DEFAULT_LIFE_CONFIG)
     [InitializePlayer ''p1'' None, InitializePlayer ''p2'' (Some (Finite 15)),
      SetLife ''p2'' (Finite 3) None, ResetLife ''p2'', SetLife ''p1'' (Finite (- 3)) None,
      ResetAllLife, DealDamage ''p1'' (Finite 25) None, Heal ''p2'' (Finite 100) None,
      ChangeLife ''p2'' (Finite (- 10)) None]) = [(''p1'', Finite 0), (''p2'', Finite 110)]"
    by (simp add: life_eval)
  from C3_life_range_invariant [OF a b] a b c show ?thesis by simp
qed


section \<open>Properties of the token manager\<close>

lemma isValidTokenId_all [simp]: "isValidTokenId k"
  by (cases k) (simp_all add: isValidTokenId_def TOKEN_DEFINITIONS_keys_def)





lemma removeToken_absent:
  "map_of (tokens m) c = None \<Longrightarrow> removeToken h m c k cnt = (Inr (Finite 0), h, m)"
  by (simp add: removeToken_def Let_def)


lemma prop_or_0_update [simp]: "prop_or_0 (AList.update k v obj) k = v"
  by (simp add: prop_or_0_def update_conv')

lemma prop_or_0_delete [simp]: "prop_or_0 (AList.delete k obj) k = Finite 0"
  by (simp add: prop_or_0_def delete_conv')









lemmas token_eval =
  addToken_def removeToken_def setTokenCount_def ensureCard_def alloc_def heap_write_def
  Map_has_def getTokenCount_def hasTokens_def hasToken_def prop_or_0_def maxCountFor_def
  count_or_1_def Object_keys_def new_TokenManager_def DEFAULT_TOKEN_CONFIG_def empty_heap_def
  Math_min_def Math_max_def js_sub_def js_strict_eq_def js_gt_def Let_def round_double_numeral




text \<open>
  Claim C4 at \<open>addToken\<close>.  \<open>addToken("c1", "damage-counter", 0)\<close> on a new default
  manager leaves card c1 in the outer map with the single entry damage-counter: 0:
  \<open>hasTokens("c1")\<close> is true while \<open>hasToken("c1", "damage-counter")\<close> is false, and the
  invariant does not hold.  The other two writers of a count do clean up: after three
  counters are added, \<open>removeToken\<close> of three and \<open>setTokenCount\<close> to 0 both delete the
  kind and the card.  \<open>addToken\<close> of -3 on a card with three counters leaves the zero
  entry as well; and \<open>removeToken\<close> of \<open>NaN\<close> stores \<open>NaN\<close>, which is not \<open>=== 0\<close>.
\<close>

theorem C4_addToken_leaves_zero_entry:
  "(case token_run (empty_heap, new_TokenManager DEFAULT_TOKEN_CONFIG)
           [AddToken ''c1'' DamageCounter (Some (Finite 0))] of
      (h, m) \<Rightarrow> getCardsWithTokens m = [''c1''] \<and>
                getTokensOnCard h m ''c1'' = [(DamageCounter, Finite 0)] \<and>
                hasTokens h m ''c1'' \<and> \<not> hasToken h m ''c1'' DamageCounter \<and>
                \<not> token_invariant h m) \<and>
   (case token_run (empty_heap, new_TokenManager DEFAULT_TOKEN_CONFIG)
           [AddToken ''c1'' DamageCounter (Some (Finite 3)),
            RemoveToken ''c1'' DamageCounter (Some (Finite 3))] of
      (h, m) \<Rightarrow> getCardsWithTokens m = [] \<and> \<not> hasTokens h m ''c1'' \<and> token_invariant h m) \<and>
   (case token_run (empty_heap, new_TokenManager DEFAULT_TOKEN_CONFIG)
           [AddToken ''c1'' DamageCounter (Some (Finite 3)),
            SetTokenCount ''c1'' DamageCounter (Finite 0)] of
      (h, m) \<Rightarrow> getCardsWithTokens m = [] \<and> \<not> hasTokens h m ''c1'' \<and> token_invariant h m) \<and>
   (case token_run (empty_heap, new_TokenManager DEFAULT_TOKEN_CONFIG)
           [AddToken ''c1'' DamageCounter (Some (Finite 3)),
            AddToken ''c1'' DamageCounter (Some (Finite (- 3)))] of
      (h, m) \<Rightarrow> getCardsWithTokens m = [''c1''] \<and>
                getTokensOnCard h m ''c1'' = [(DamageCounter, Finite 0)] \<and>
                \<not> token_invariant h m) \<and>
   (case token_run (empty_heap, new_TokenManager DEFAULT_TOKEN_CONFIG)
           [AddToken ''c1'' DamageCounter (Some (Finite 3)),
            RemoveToken ''c1'' DamageCounter (Some NaN)] of
      (h, m) \<Rightarrow> getCardsWithTokens m = [''c1''] \<and>
                getTokensOnCard h m ''c1'' = [(DamageCounter, NaN)] \<and>
                \<not> token_invariant h m)"
  by (simp add: token_run_def token_eval getCardsWithTokens_def getTokensOnCard_def
        Map_keys_def token_invariant_def card_ok_def clearTokens_def clearAllTokens_def)

section \<open>Serialize and restore\<close>

text \<open>
  Claim C9 at \<open>TokenManager.serialize\<close>.  After \<open>addToken("c1", "damage-counter", 3)\<close>
  on a new default manager, the map that \<open>serialize\<close> returns holds for c1 the very
  object of the manager: writing \<open>damage-counter = 100\<close> into the object found in the
  returned map makes \<open>getTokenCount("c1", "damage-counter")\<close> of the manager 100, and a
  later \<open>addToken("c1", "damage-counter", 2)\<close> on the manager changes what the returned
  map shows from 3 to 5.
\<close>

theorem C9_serialize_shares_objects:
  "(case addToken empty_heap (new_TokenManager DEFAULT_TOKEN_CONFIG) ''c1'' DamageCounter
           (Some (Finite 3)) of
      (r, h1, m1) \<Rightarrow>
        getTokenCount h1 m1 ''c1'' DamageCounter = Finite 3 \<and>
        (case map_of (serialize_token m1) ''c1'' of
           None \<Rightarrow> False
         | Some a \<Rightarrow>
             getTokenCount (heap_write h1 a (AList.update DamageCounter (Finite 100) (cells h1 a)))
                m1 ''c1'' DamageCounter = Finite 100 \<and>
             (case addToken h1 m1 ''c1'' DamageCounter (Some (Finite 2)) of
                (r', h2, m2) \<Rightarrow>
                  prop_or_0 (cells h1 a) DamageCounter = Finite 3 \<and>
                  prop_or_0 (cells h2 a) DamageCounter = Finite 5)))"
  by (simp add: token_eval serialize_token_def)

text \<open>
  C8 as stated fails for the getters that read what the constructor was given: a turn
  manager for p1 and p2 restored into a new manager for a and b has inactive player a
  instead of p2; a life manager with p1 at 5 restored into a new manager with
  \<open>minLife = 10\<close> and \<open>startingLife = 30\<close> reports p1 dead instead of alive, and starting
  life 30 instead of 20.
\<close>

theorem C8_counterexample:
  "(let tm = new_TurnManager ''p1'' ''p2'' DEFAULT_TURN_CONFIG;
        r = restore_turn (new_TurnManager ''a'' ''b'' DEFAULT_TURN_CONFIG) (serialize_turn tm)
    in getInactivePlayerId tm = ''p2'' \<and> getInactivePlayerId r = ''a'') \<and>
   (let lm = initializePlayer (new_LifeManager DEFAULT_LIFE_CONFIG) ''p1'' (Some (Finite 5));
        r = restore_life (new_LifeManager \<lparr>startingLife = Finite 30, minLife = Finite 10,
                                            maxLife = MaxNull\<rparr>) (serialize_life lm)
    in isAlive lm ''p1'' = Inr True \<and> isAlive r ''p1'' = Inr False \<and>
       isDead lm ''p1'' = Inr False \<and> isDead r ''p1'' = Inr True \<and>
       getStartingLife lm = Finite 20 \<and> getStartingLife r = Finite 30)"
  by (simp add: new_TurnManager_def restore_turn_def serialize_turn_def getState_def
        getInactivePlayerId_def initializePlayer_def new_LifeManager_def DEFAULT_LIFE_CONFIG_def
        restore_life_def serialize_life_def isAlive_def isDead_def getLife_def js_gt_def
        getStartingLife_def Let_def)

text \<open>
  Claim C8, as the code has it.  \<open>serialize\<close> carries the state and not the constructor
  arguments.  For each of the three managers, in any state whatever (so in every state
  that a sequence of operations produces), \<open>restore(serialize())\<close> on a new instance of
  any configuration gives an instance on which the getters of the state return what they
  return on the original: turn number, phase, active player, action flags,
  \<open>canPerformAction\<close>, \<open>isPlayerTurn\<close>, \<open>getState\<close>, \<open>getAllPhases\<close>; \<open>getLife\<close>,
  \<open>hasPlayer\<close>, \<open>getPlayerIds\<close>, \<open>getAllLifeTotals\<close>; \<open>getTokenCount\<close>,
  \<open>getTokensOnCard\<close>, \<open>hasTokens\<close>, \<open>hasToken\<close>, \<open>getCardsWithTokens\<close>,
  \<open>getTotalTokenCount\<close>, the token definitions; and \<open>serialize\<close> itself.  The getters
  that also read the constructor arguments (\<open>getInactivePlayerId\<close>: the two player
  ids; \<open>isAlive\<close>, \<open>isDead\<close>, \<open>getStartingLife\<close>: the life configuration) return the
  same when the new instance is constructed with the same player ids, respectively the
  same life configuration, as the original.
\<close>

theorem C8_serialize_restore_roundtrip:
  "(let r = restore_turn (new_TurnManager p1 p2 cfg) (serialize_turn tm)
    in getTurnNumber r = getTurnNumber tm \<and> getCurrentPhase r = getCurrentPhase tm \<and>
       getActivePlayerId r = getActivePlayerId tm \<and> getPhaseActions r = getPhaseActions tm \<and>
       canPerformAction r act = canPerformAction tm act \<and>
       isPlayerTurn r p = isPlayerTurn tm p \<and> getState r = getState tm \<and>
       getAllPhases r = getAllPhases tm \<and> serialize_turn r = serialize_turn tm) \<and>
   getInactivePlayerId (restore_turn (new_TurnManager (fst (playerIds tm)) (snd (playerIds tm)) cfg)
                          (serialize_turn tm)) = getInactivePlayerId tm \<and>
   (let r = restore_life (new_LifeManager lcfg) (serialize_life lm)
    in getLife r p = getLife lm p \<and> hasPlayer r p = hasPlayer lm p \<and>
       getPlayerIds r = getPlayerIds lm \<and> getAllLifeTotals r = getAllLifeTotals lm \<and>
       serialize_life r = serialize_life lm) \<and>
   (let r = restore_life (new_LifeManager (life_config lm)) (serialize_life lm)
    in isAlive r p = isAlive lm p \<and> isDead r p = isDead lm p \<and>
       getStartingLife r = getStartingLife lm) \<and>
   (let r = restore_token (new_TokenManager tcfg) (serialize_token km)
    in getTokenCount h r c k = getTokenCount h km c k \<and>
       getTokensOnCard h r c = getTokensOnCard h km c \<and>
       hasTokens h r c = hasTokens h km c \<and> hasToken h r c k = hasToken h km c k \<and>
       getCardsWithTokens r = getCardsWithTokens km \<and>
       getTotalTokenCount h r = getTotalTokenCount h km \<and>
       getTokenDefinition r k = getTokenDefinition km k \<and>
       getAllTokenDefinitions r = getAllTokenDefinitions km \<and>
       serialize_token r = serialize_token km)"
proof -
  have turn: "state (restore_turn m st) = st" "playerIds (restore_turn m st) = playerIds m"
    "serialize_turn m = state m" for m st
    by (simp_all add: restore_turn_def serialize_turn_def getState_def)
  have ids: "playerIds (new_TurnManager a b cfg) = (a, b)" for a b
    by (simp add: new_TurnManager_def)
  have life: "lifeTotals (restore_life m st) = st" "life_config (restore_life m st) = life_config m"
    "serialize_life m = lifeTotals m" for m st
    by (simp_all add: restore_life_def serialize_life_def)
  have lcf: "life_config (new_LifeManager c) = c" for c
    by (simp add: new_LifeManager_def)
  have tok: "tokens (restore_token m st) = st" "serialize_token m = tokens m" for m st
    by (simp_all add: restore_token_def serialize_token_def)
  have 1: "(let r = restore_turn (new_TurnManager p1 p2 cfg) (serialize_turn tm)
    in getTurnNumber r = getTurnNumber tm \<and> getCurrentPhase r = getCurrentPhase tm \<and>
       getActivePlayerId r = getActivePlayerId tm \<and> getPhaseActions r = getPhaseActions tm \<and>
       canPerformAction r act = canPerformAction tm act \<and>
       isPlayerTurn r p = isPlayerTurn tm p \<and> getState r = getState tm \<and>
       getAllPhases r = getAllPhases tm \<and> serialize_turn r = serialize_turn tm)"
    by (simp add: Let_def turn getTurnNumber_def getCurrentPhase_def getActivePlayerId_def
          getPhaseActions_def canPerformAction_def isPlayerTurn_def getState_def
          getAllPhases_def)
  have 2: "getInactivePlayerId (restore_turn (new_TurnManager (fst (playerIds tm))
             (snd (playerIds tm)) cfg) (serialize_turn tm)) = getInactivePlayerId tm"
    by (simp add: getInactivePlayerId_def turn ids)
  have 3: "(let r = restore_life (new_LifeManager lcfg) (serialize_life lm)
    in getLife r p = getLife lm p \<and> hasPlayer r p = hasPlayer lm p \<and>
       getPlayerIds r = getPlayerIds lm \<and> getAllLifeTotals r = getAllLifeTotals lm \<and>
       serialize_life r = serialize_life lm)"
    by (simp add: Let_def life getLife_def hasPlayer_def getPlayerIds_def getAllLifeTotals_def)
  have 4: "(let r = restore_life (new_LifeManager (life_config lm)) (serialize_life lm)
    in isAlive r p = isAlive lm p \<and> isDead r p = isDead lm p \<and>
       getStartingLife r = getStartingLife lm)"
    by (simp add: Let_def life lcf isAlive_def isDead_def getLife_def getStartingLife_def
          cong: sum.case_cong)
  have 5: "(let r = restore_token (new_TokenManager tcfg) (serialize_token km)
    in getTokenCount h r c k = getTokenCount h km c k \<and>
       getTokensOnCard h r c = getTokensOnCard h km c \<and>
       hasTokens h r c = hasTokens h km c \<and> hasToken h r c k = hasToken h km c k \<and>
       getCardsWithTokens r = getCardsWithTokens km \<and>
       getTotalTokenCount h r = getTotalTokenCount h km \<and>
       getTokenDefinition r k = getTokenDefinition km k \<and>
       getAllTokenDefinitions r = getAllTokenDefinitions km \<and>
       serialize_token r = serialize_token km)"
    by (simp add: Let_def tok getTokenCount_def getTokensOnCard_def hasTokens_def hasToken_def
          getCardsWithTokens_def getTotalTokenCount_def getTokenDefinition_def
          getAllTokenDefinitions_def)
  from 1 2 3 4 5 show ?thesis by blast
qed

end
